theory Spec2Isabelle
  imports Main "HOL-Library.AList"
begin

section \<open>The realtime connection manager of websockets.js\<close>

text \<open>
  The class \<^verbatim>\<open>TIMBWebSocket\<close> keeps named WebSocket connections, reconnects them with a
  delay after an unexpected closure, sends a ping on a heartbeat timer and broadcasts decoded
  messages to subscribers. Its methods are event handlers: they run one at a time, each to
  completion. The model passes the state of the manager and of the browser objects it drives
  through every method, and returns, where a method can raise, how it completed.
\<close>

subsection \<open>Values on the wire\<close>

text \<open>
  A decoded message. Numbers are integers here: no method of the manager computes with a
  number of a message.
\<close>

datatype json =
    JNull
  | JBool bool
  | JNum int
  | JStr string
  | JArr "json list"
  | JObj "(string \<times> json) list"

text \<open>
  The text of a frame is represented by the value it encodes when it is JSON text, and by its
  characters otherwise; \<^verbatim>\<open>JSON.stringify\<close> and \<^verbatim>\<open>JSON.parse\<close> of the platform are then the
  constructor and its partial inverse. \<^verbatim>\<open>JSON.parse\<close> raises a SyntaxError on anything else.
  The messages given to \<^verbatim>\<open>send\<close> are values that \<^verbatim>\<open>JSON.stringify\<close> serializes.
\<close>

datatype frame = Text json | Malformed string

datatype js_error = SyntaxError | TypeError | DOMException | CallbackThrew nat

definition JSON_stringify :: "json \<Rightarrow> frame" where
  "JSON_stringify v = Text v"

fun JSON_parse :: "frame \<Rightarrow> js_error + json" where
  "JSON_parse (Text v) = Inr v"
| "JSON_parse (Malformed s) = Inl SyntaxError"

text \<open>
  Reading the property \<^verbatim>\<open>type\<close> or \<^verbatim>\<open>payload\<close> of a decoded value: a TypeError on
  \<^verbatim>\<open>null\<close>, the member of an object, and \<^verbatim>\<open>undefined\<close> (\<open>None\<close>) where an object has no
  such member and on every other value.
\<close>

fun get_prop :: "json \<Rightarrow> string \<Rightarrow> js_error + json option" where
  "get_prop JNull k = Inl TypeError"
| "get_prop (JObj kvs) k = Inr (map_of kvs k)"
| "get_prop v k = Inr None"

subsection \<open>Callbacks\<close>

text \<open>
  A callback supplied by a caller is opaque to the manager: calling it is recorded with its
  arguments, and it either returns or raises. It does not call back into the manager.
\<close>

datatype call_args =
    NoArgs
  | MessageArg json
  | CloseEventArg nat string
  | ErrorEventArg
  | ExceptionArg js_error
  | SubscriberArgs "json option" string

record callback =
  cb_id :: nat
  cb_throws :: "call_args \<Rightarrow> bool"

record handlers =
  onConnect :: "callback option"
  onMessage :: "callback option"
  onDisconnect :: "callback option"
  onError :: "callback option"

datatype completion = Normal | Throw js_error

subsection \<open>Browser objects\<close>

datatype ready_state = CONNECTING | OPEN | CLOSING | CLOSED

text \<open>
  A WebSocket object, with the variables \<^verbatim>\<open>name\<close>, \<^verbatim>\<open>url\<close> and \<^verbatim>\<open>handlers\<close> of the call
  of \<^verbatim>\<open>connect\<close> that created it: its four event handlers are closures over them.
\<close>

record transport =
  ws_name :: string
  ws_url :: string
  ws_handlers :: handlers
  readyState :: ready_state
  sent :: "frame list"
  close_requested :: "(nat \<times> string) option"

text \<open>The closure given to \<^verbatim>\<open>setTimeout\<close> by \<^verbatim>\<open>scheduleReconnect\<close>, with its delay.\<close>

record timeout_entry =
  t_id :: nat
  t_delay :: nat
  t_name :: string
  t_url :: string
  t_handlers :: handlers
  t_attempts :: nat

text \<open>The closure given to \<^verbatim>\<open>setInterval\<close> by \<^verbatim>\<open>startHeartbeat\<close>.\<close>

record interval_entry =
  i_id :: nat
  i_period :: nat
  i_name :: string
  i_ws :: nat

text \<open>An argument of a console call: text, a number, an exception, or the error event.\<close>

datatype console_arg = S string | N nat | E js_error | Ev

datatype console_entry = Log "console_arg list" | Error "console_arg list"

subsection \<open>The state\<close>

text \<open>
  The fields of the class come first, each \<^verbatim>\<open>Map\<close> as an association list in insertion
  order. A WebSocket object is named by its index in \<open>sockets\<close>, the list of all that were
  constructed. \<open>timeouts\<close> and \<open>intervals\<close> are the timers that are pending,
  \<open>listeners\<close> the listeners of the document for \<^verbatim>\<open>websocket-message\<close> events in the order
  they were added, \<open>accepts\<close> tells for which addresses the WebSocket constructor returns
  instead of raising. \<open>statusIndicator\<close> holds the class name suffix and the text of the
  indicator element; its \<^verbatim>\<open>hidden\<close> class and the timers that set it are not modelled.
  Timer handles are positive integers, so a handle found in a map is truthy.
\<close>

record manager =
  connections :: "(string \<times> nat) list"
  reconnectAttempts :: "(string \<times> nat) list"
  maxReconnectAttempts :: nat
  reconnectDelay :: nat
  heartbeatInterval :: nat
  heartbeatTimers :: "(string \<times> nat) list"
  messageHandlers :: "(string \<times> handlers) list"
  statusIndicator :: "(string \<times> string) option"
  sockets :: "transport list"
  timeouts :: "timeout_entry list"
  intervals :: "interval_entry list"
  listeners :: "(string \<times> callback) list"
  next_timer :: nat
  accepts :: "string \<Rightarrow> bool"
  console :: "console_entry list"
  calls :: "(nat \<times> call_args) list"

text \<open>
  The constructor's field initialisers, with the indicator that \<^verbatim>\<open>createStatusIndicator\<close>
  builds. The calls of \<^verbatim>\<open>connect\<close> that \<^verbatim>\<open>init\<close> makes are \<open>Connect\<close> events below; the
  handlers it passes, which also set the status indicator, are not modelled.
\<close>

definition TIMBWebSocket :: "(string \<Rightarrow> bool) \<Rightarrow> manager" where
  "TIMBWebSocket acc =
     \<lparr> connections = [], reconnectAttempts = [], maxReconnectAttempts = 5,
       reconnectDelay = 3000, heartbeatInterval = 30000, heartbeatTimers = [],
       messageHandlers = [], statusIndicator = Some ('''', ''Connecting...''),
       sockets = [], timeouts = [], intervals = [], listeners = [], next_timer = 1,
       accepts = acc, console = [], calls = [] \<rparr>"

subsection \<open>Platform operations\<close>

definition console_log :: "console_arg list \<Rightarrow> manager \<Rightarrow> manager" where
  "console_log args st = st\<lparr>console := console st @ [Log args]\<rparr>"

definition console_error :: "console_arg list \<Rightarrow> manager \<Rightarrow> manager" where
  "console_error args st = st\<lparr>console := console st @ [Error args]\<rparr>"

definition invoke :: "callback \<Rightarrow> call_args \<Rightarrow> manager \<Rightarrow> completion \<times> manager" where
  "invoke cb args st =
     (if cb_throws cb args then Throw (CallbackThrew (cb_id cb)) else Normal,
      st\<lparr>calls := calls st @ [(cb_id cb, args)]\<rparr>)"

text \<open>\<^verbatim>\<open>if (h) h(args)\<close> for an optional handler.\<close>

definition invoke_opt :: "callback option \<Rightarrow> call_args \<Rightarrow> manager \<Rightarrow> completion \<times> manager" where
  "invoke_opt h args st = (case h of None \<Rightarrow> (Normal, st) | Some cb \<Rightarrow> invoke cb args st)"

definition socket :: "manager \<Rightarrow> nat \<Rightarrow> transport option" where
  "socket st ws = (if ws < length (sockets st) then Some (sockets st ! ws) else None)"

definition live :: "transport \<Rightarrow> bool" where
  "live t = (readyState t = CONNECTING \<or> readyState t = OPEN)"

text \<open>
  \<^verbatim>\<open>ws.close(code, reason)\<close>: nothing on a socket that is closing or closed; otherwise the
  socket starts closing.
\<close>

definition ws_close :: "nat \<Rightarrow> nat \<Rightarrow> string \<Rightarrow> manager \<Rightarrow> manager" where
  "ws_close ws code reason st =
     (case socket st ws of
        None \<Rightarrow> st
      | Some t \<Rightarrow>
          if readyState t = CLOSING \<or> readyState t = CLOSED then st
          else st\<lparr>sockets := (sockets st)
                 [ws := t\<lparr>readyState := CLOSING, close_requested := Some (code, reason)\<rparr>]\<rparr>)"

text \<open>
  \<^verbatim>\<open>ws.send(text)\<close> on an open socket transmits the frame. Both callers test
  \<^verbatim>\<open>readyState === WebSocket.OPEN\<close> first; on any other socket nothing is transmitted.
\<close>

definition ws_send :: "nat \<Rightarrow> frame \<Rightarrow> manager \<Rightarrow> manager" where
  "ws_send ws f st =
     (case socket st ws of
        None \<Rightarrow> st
      | Some t \<Rightarrow>
          if readyState t = OPEN then st\<lparr>sockets := (sockets st)[ws := t\<lparr>sent := sent t @ [f]\<rparr>]\<rparr>
          else st)"

definition digit :: "nat \<Rightarrow> char" where
  "digit d = ''0123456789'' ! d"

fun show_nat :: "nat \<Rightarrow> string" where
  "show_nat n = (if n < 10 then [digit n] else show_nat (n div 10) @ [digit (n mod 10)])"

declare show_nat.simps [simp del]

subsection \<open>Methods of the class\<close>

definition updateStatus :: "string \<Rightarrow> string \<Rightarrow> manager \<Rightarrow> manager" where
  "updateStatus status message st =
     (case statusIndicator st of
        None \<Rightarrow> st
      | Some old \<Rightarrow> st\<lparr>statusIndicator := Some (status, message)\<rparr>)"

definition stopHeartbeat :: "string \<Rightarrow> manager \<Rightarrow> manager" where
  "stopHeartbeat name st =
     (case map_of (heartbeatTimers st) name of
        None \<Rightarrow> st
      | Some timer \<Rightarrow>
          st\<lparr>intervals := filter (\<lambda>e. i_id e \<noteq> timer) (intervals st),
             heartbeatTimers := AList.delete name (heartbeatTimers st)\<rparr>)"

definition startHeartbeat :: "string \<Rightarrow> manager \<Rightarrow> manager" where
  "startHeartbeat name st =
     (case map_of (connections st) name of
        None \<Rightarrow> st
      | Some ws \<Rightarrow>
          st\<lparr>intervals := intervals st @ [\<lparr>i_id = next_timer st, i_period = heartbeatInterval st,
                                           i_name = name, i_ws = ws\<rparr>],
             next_timer := Suc (next_timer st),
             heartbeatTimers := AList.update name (next_timer st) (heartbeatTimers st)\<rparr>)"

text \<open>The function that \<^verbatim>\<open>startHeartbeat\<close> gives to \<^verbatim>\<open>setInterval\<close>.\<close>

definition heartbeat_tick :: "interval_entry \<Rightarrow> manager \<Rightarrow> manager" where
  "heartbeat_tick e st =
     (case socket st (i_ws e) of
        None \<Rightarrow> st
      | Some t \<Rightarrow>
          if readyState t = OPEN
          then ws_send (i_ws e) (JSON_stringify (JObj [(''type'', JStr ''ping'')])) st
          else stopHeartbeat (i_name e) st)"

definition disconnect :: "string \<Rightarrow> manager \<Rightarrow> manager" where
  "disconnect name st =
     (case map_of (connections st) name of
        None \<Rightarrow> st
      | Some ws \<Rightarrow>
          (let st1 = stopHeartbeat name st;
               st2 = ws_close ws 1000 ''Intentional disconnect'' st1
           in st2\<lparr>connections := AList.delete name (connections st2),
                  messageHandlers := AList.delete name (messageHandlers st2),
                  reconnectAttempts := AList.delete name (reconnectAttempts st2)\<rparr>))"

definition new_WebSocket :: "string \<Rightarrow> string \<Rightarrow> handlers \<Rightarrow> transport" where
  "new_WebSocket name url hs =
     \<lparr> ws_name = name, ws_url = url, ws_handlers = hs, readyState = CONNECTING,
       sent = [], close_requested = None \<rparr>"

definition connect :: "string \<Rightarrow> string \<Rightarrow> handlers \<Rightarrow> manager \<Rightarrow> completion \<times> manager" where
  "connect name url hs st =
     (let st1 = (if map_of (connections st) name \<noteq> None then disconnect name st else st);
          st2 = updateStatus ''connecting'' ''Connecting...'' st1
      in if accepts st2 url
         then (let ws = length (sockets st2);
                   st3 = st2\<lparr>sockets := sockets st2 @ [new_WebSocket name url hs]\<rparr>
               in (Normal,
                   st3\<lparr>connections := AList.update name ws (connections st3),
                       messageHandlers := AList.update name hs (messageHandlers st3)\<rparr>))
         else (let st3 = console_error
                           [S (''Failed to create WebSocket '' @ name @ '':''), E DOMException] st2;
                   st4 = updateStatus ''disconnected'' ''Connection Failed'' st3
               in invoke_opt (onError hs) (ExceptionArg DOMException) st4))"

definition setTimeout :: "timeout_entry \<Rightarrow> manager \<Rightarrow> manager" where
  "setTimeout e st =
     st\<lparr>timeouts := timeouts st @ [e\<lparr>t_id := next_timer st\<rparr>],
        next_timer := Suc (next_timer st)\<rparr>"

definition scheduleReconnect :: "string \<Rightarrow> string \<Rightarrow> handlers \<Rightarrow> manager \<Rightarrow> manager" where
  "scheduleReconnect name url hs st =
     (let attempts = (case map_of (reconnectAttempts st) name of None \<Rightarrow> 0 | Some n \<Rightarrow> n)
      in if attempts \<ge> maxReconnectAttempts st
         then updateStatus ''disconnected'' ''Connection Failed''
                (console_log [S (''Max reconnection attempts reached for '' @ name)] st)
         else (let delay = reconnectDelay st * 2 ^ attempts;
                   st1 = console_log
                           [S (''Reconnecting to '' @ name @ '' in '' @ show_nat delay
                               @ ''ms (attempt '' @ show_nat (attempts + 1) @ '')'')] st;
                   st2 = updateStatus ''connecting''
                           (''Reconnecting... ('' @ show_nat (attempts + 1) @ ''/''
                            @ show_nat (maxReconnectAttempts st1) @ '')'') st1
               in setTimeout \<lparr> t_id = 0, t_delay = delay, t_name = name, t_url = url,
                               t_handlers = hs, t_attempts = attempts \<rparr> st2))"

text \<open>The function that \<^verbatim>\<open>scheduleReconnect\<close> gives to \<^verbatim>\<open>setTimeout\<close>.\<close>

definition reconnect_timer :: "timeout_entry \<Rightarrow> manager \<Rightarrow> completion \<times> manager" where
  "reconnect_timer e st =
     connect (t_name e) (t_url e) (t_handlers e)
       (st\<lparr>reconnectAttempts :=
             AList.update (t_name e) (t_attempts e + 1) (reconnectAttempts st)\<rparr>)"

subsection \<open>The event handlers that \<^verbatim>\<open>connect\<close> installs\<close>

definition ws_onopen :: "string \<Rightarrow> handlers \<Rightarrow> manager \<Rightarrow> completion \<times> manager" where
  "ws_onopen name hs st =
     (let st1 = console_log [S (''WebSocket '' @ name @ '' connected'')] st;
          st2 = st1\<lparr>reconnectAttempts := AList.update name 0 (reconnectAttempts st1)\<rparr>;
          st3 = startHeartbeat name st2
      in invoke_opt (onConnect hs) NoArgs st3)"

text \<open>
  \<^verbatim>\<open>emitEvent\<close> dispatches a \<^verbatim>\<open>websocket-message\<close> event on the document. The platform
  calls the listeners in the order they were added; an exception of a listener is reported
  by the platform and does not reach the dispatcher or the later listeners. Every listener
  of the model is one that \<^verbatim>\<open>subscribe\<close> added, \<open>listener\<close> being its body.
\<close>

definition listener :: "string \<Rightarrow> callback \<Rightarrow> string \<Rightarrow> json \<Rightarrow> manager \<Rightarrow> completion \<times> manager" where
  "listener eventType cb source data st =
     (case get_prop data ''type'' of
        Inl err \<Rightarrow> (Throw err, st)
      | Inr ty \<Rightarrow>
          if ty = Some (JStr eventType)
          then (case get_prop data ''payload'' of
                  Inl err \<Rightarrow> (Throw err, st)
                | Inr payload \<Rightarrow> invoke cb (SubscriberArgs payload source) st)
          else (Normal, st))"

definition emitEvent :: "string \<Rightarrow> json \<Rightarrow> manager \<Rightarrow> manager" where
  "emitEvent source data st =
     foldl (\<lambda>s (eventType, cb). snd (listener eventType cb source data s)) st (listeners st)"

definition subscribe :: "string \<Rightarrow> callback \<Rightarrow> manager \<Rightarrow> manager" where
  "subscribe eventType cb st = st\<lparr>listeners := listeners st @ [(eventType, cb)]\<rparr>"

text \<open>The body of the \<^verbatim>\<open>try\<close> block of \<^verbatim>\<open>ws.onmessage\<close>.\<close>

definition ws_onmessage_try :: "string \<Rightarrow> handlers \<Rightarrow> frame \<Rightarrow> manager \<Rightarrow> completion \<times> manager" where
  "ws_onmessage_try name hs f st =
     (case JSON_parse f of
        Inl err \<Rightarrow> (Throw err, st)
      | Inr data \<Rightarrow>
          (case get_prop data ''type'' of
             Inl err \<Rightarrow> (Throw err, st)
           | Inr ty \<Rightarrow>
               if ty = Some (JStr ''pong'') then (Normal, st)
               else (case invoke_opt (onMessage hs) (MessageArg data) st of
                       (Throw err, st1) \<Rightarrow> (Throw err, st1)
                     | (Normal, st1) \<Rightarrow> (Normal, emitEvent name data st1))))"

definition ws_onmessage :: "string \<Rightarrow> handlers \<Rightarrow> frame \<Rightarrow> manager \<Rightarrow> completion \<times> manager" where
  "ws_onmessage name hs f st =
     (case ws_onmessage_try name hs f st of
        (Normal, st1) \<Rightarrow> (Normal, st1)
      | (Throw err, st1) \<Rightarrow>
          (Normal,
           console_error [S (''Error parsing WebSocket message from '' @ name @ '':''), E err] st1))"

definition ws_onclose ::
  "string \<Rightarrow> string \<Rightarrow> handlers \<Rightarrow> nat \<Rightarrow> string \<Rightarrow> manager \<Rightarrow> completion \<times> manager" where
  "ws_onclose name url hs code reason st =
     (let st1 = console_log [S (''WebSocket '' @ name @ '' closed:''), N code, S reason] st;
          st2 = stopHeartbeat name st1
      in case invoke_opt (onDisconnect hs) (CloseEventArg code reason) st2 of
           (Throw err, st3) \<Rightarrow> (Throw err, st3)
         | (Normal, st3) \<Rightarrow>
             (Normal, if code \<noteq> 1000 then scheduleReconnect name url hs st3 else st3))"

definition ws_onerror :: "string \<Rightarrow> handlers \<Rightarrow> manager \<Rightarrow> completion \<times> manager" where
  "ws_onerror name hs st =
     invoke_opt (onError hs) ErrorEventArg
       (console_error [S (''WebSocket '' @ name @ '' error:''), Ev] st)"

subsection \<open>The remaining methods\<close>

definition send :: "string \<Rightarrow> json \<Rightarrow> manager \<Rightarrow> bool \<times> manager" where
  "send name data st =
     (case map_of (connections st) name of
        None \<Rightarrow> (False, st)
      | Some ws \<Rightarrow>
          (case socket st ws of
             None \<Rightarrow> (False, st)
           | Some t \<Rightarrow>
               if readyState t = OPEN then (True, ws_send ws (JSON_stringify data) st)
               else (False, st)))"

text \<open>The method \<^verbatim>\<open>isConnected\<close>.\<close>

definition isConnected :: "string \<Rightarrow> manager \<Rightarrow> bool" where
  "isConnected name st =
     (case map_of (connections st) name of
        None \<Rightarrow> False
      | Some ws \<Rightarrow> (case socket st ws of None \<Rightarrow> False | Some t \<Rightarrow> readyState t = OPEN))"

definition pauseHeartbeats :: "manager \<Rightarrow> manager" where
  "pauseHeartbeats st =
     st\<lparr>intervals := filter (\<lambda>e. i_id e \<notin> set (map snd (heartbeatTimers st))) (intervals st),
        heartbeatTimers := []\<rparr>"

definition resumeHeartbeats :: "manager \<Rightarrow> manager" where
  "resumeHeartbeats st =
     foldl (\<lambda>s (name, ws).
              case socket s ws of
                None \<Rightarrow> s
              | Some t \<Rightarrow> if readyState t = OPEN then startHeartbeat name s else s)
       st (connections st)"

text \<open>The \<^verbatim>\<open>beforeunload\<close> listener of \<^verbatim>\<open>setupErrorHandlers\<close>.\<close>

definition beforeunload :: "manager \<Rightarrow> manager" where
  "beforeunload st = foldl (\<lambda>s name. disconnect name s) st (map fst (connections st))"

subsection \<open>Events\<close>

text \<open>
  What can happen to a manager: a call of a public method, or an event that the platform
  delivers. The platform delivers \<^verbatim>\<open>open\<close> to a connecting socket only, \<^verbatim>\<open>message\<close> to an
  open one, \<^verbatim>\<open>close\<close> and \<^verbatim>\<open>error\<close> to one that is not closed yet, and runs a timer
  that is pending. An exception that leaves a handler is reported by the platform; the
  state stays as the handler left it.
\<close>

datatype event =
    Connect string string handlers
  | Disconnect string
  | Send string json
  | Subscribe string callback
  | WsOpen nat
  | WsMessage nat frame
  | WsClose nat nat string
  | WsError nat
  | TimeoutFire nat
  | IntervalTick nat
  | PageHidden
  | PageVisible
  | BeforeUnload

definition set_readyState :: "nat \<Rightarrow> ready_state \<Rightarrow> manager \<Rightarrow> manager" where
  "set_readyState ws r st =
     st\<lparr>sockets := (sockets st)[ws := (sockets st ! ws)\<lparr>readyState := r\<rparr>]\<rparr>"

fun step :: "manager \<Rightarrow> event \<Rightarrow> manager" where
  "step st (Connect name url hs) = snd (connect name url hs st)"
| "step st (Disconnect name) = disconnect name st"
| "step st (Send name data) = snd (send name data st)"
| "step st (Subscribe eventType cb) = subscribe eventType cb st"
| "step st (WsOpen ws) =
     (case socket st ws of
        None \<Rightarrow> st
      | Some t \<Rightarrow>
          if readyState t = CONNECTING
          then snd (ws_onopen (ws_name t) (ws_handlers t) (set_readyState ws OPEN st))
          else st)"
| "step st (WsMessage ws f) =
     (case socket st ws of
        None \<Rightarrow> st
      | Some t \<Rightarrow>
          if readyState t = OPEN then snd (ws_onmessage (ws_name t) (ws_handlers t) f st)
          else st)"
| "step st (WsClose ws code reason) =
     (case socket st ws of
        None \<Rightarrow> st
      | Some t \<Rightarrow>
          if readyState t \<noteq> CLOSED
          then snd (ws_onclose (ws_name t) (ws_url t) (ws_handlers t) code reason
                      (set_readyState ws CLOSED st))
          else st)"
| "step st (WsError ws) =
     (case socket st ws of
        None \<Rightarrow> st
      | Some t \<Rightarrow>
          if readyState t \<noteq> CLOSED then snd (ws_onerror (ws_name t) (ws_handlers t) st)
          else st)"
| "step st (TimeoutFire timer) =
     (case find (\<lambda>e. t_id e = timer) (timeouts st) of
        None \<Rightarrow> st
      | Some e \<Rightarrow>
          snd (reconnect_timer e
                 (st\<lparr>timeouts := filter (\<lambda>e. t_id e \<noteq> timer) (timeouts st)\<rparr>)))"
| "step st (IntervalTick timer) =
     (case find (\<lambda>e. i_id e = timer) (intervals st) of
        None \<Rightarrow> st
      | Some e \<Rightarrow> heartbeat_tick e st)"
| "step st PageHidden = pauseHeartbeats st"
| "step st PageVisible = resumeHeartbeats st"
| "step st BeforeUnload = beforeunload st"

definition run :: "manager \<Rightarrow> event list \<Rightarrow> manager" where
  "run st evs = foldl step st evs"

subsection \<open>Notions used by the properties\<close>

text \<open>The transports opened for a name that the manager has neither closed nor seen closed.\<close>

definition live_transports :: "string \<Rightarrow> manager \<Rightarrow> transport list" where
  "live_transports name st = filter (\<lambda>t. ws_name t = name \<and> live t) (sockets st)"

text \<open>An optional handler that is absent, or returns when called with these arguments.\<close>

definition returns :: "callback option \<Rightarrow> call_args \<Rightarrow> bool" where
  "returns h args = (case h of None \<Rightarrow> True | Some cb \<Rightarrow> \<not> cb_throws cb args)"

text \<open>The subscriptions whose type is the declared type of a message, in registration order.\<close>

definition matching :: "json \<Rightarrow> (string \<times> callback) list \<Rightarrow> (string \<times> callback) list" where
  "matching data subs =
     filter (\<lambda>(eventType, cb). get_prop data ''type'' = Inr (Some (JStr eventType))) subs"

definition payload_of :: "json \<Rightarrow> json option" where
  "payload_of data = (case get_prop data ''payload'' of Inl err \<Rightarrow> None | Inr p \<Rightarrow> p)"

subsection \<open>Scenarios\<close>

text \<open>\<^verbatim>\<open>{}\<close>, the default of the parameter \<^verbatim>\<open>handlers\<close>.\<close>

definition no_handlers :: handlers where
  "no_handlers = \<lparr> onConnect = None, onMessage = None, onDisconnect = None, onError = None \<rparr>"

definition feed_url :: string where
  "feed_url = ''wss://host/ws/realtime/''"

text \<open>A page on which every address is accepted by the WebSocket constructor.\<close>

definition page :: manager where
  "page = TIMBWebSocket (\<lambda>url. True)"

text \<open>
  \<^verbatim>\<open>connect('feed', url, {})\<close>, the transport closes with code 1006, the reconnect timer
  runs, and the second transport closes with code 1006 before it opens.
\<close>

definition two_closures :: "event list" where
  "two_closures =
     [Connect ''feed'' feed_url no_handlers, WsClose 0 1006 [], TimeoutFire 1,
      WsClose 1 1006 []]"

text \<open>The same, with five reconnects that each fail with code 1006 before opening.\<close>

definition six_closures :: "event list" where
  "six_closures =
     [Connect ''feed'' feed_url no_handlers, WsClose 0 1006 [],
      TimeoutFire 1, WsClose 1 1006 [], TimeoutFire 2, WsClose 2 1006 [],
      TimeoutFire 3, WsClose 3 1006 [], TimeoutFire 4, WsClose 4 1006 [],
      TimeoutFire 5, WsClose 5 1006 []]"

text \<open>
  \<^verbatim>\<open>connect('feed', url, {})\<close>, the transport closes with code 1006, and the caller calls
  \<^verbatim>\<open>disconnect('feed')\<close> while the reconnect timer is pending.
\<close>

definition disconnect_while_pending :: "event list" where
  "disconnect_while_pending =
     [Connect ''feed'' feed_url no_handlers, WsClose 0 1006 [], Disconnect ''feed'']"

text \<open>A callback that raises on every call, and callbacks that always return.\<close>

definition raising :: callback where
  "raising = \<lparr> cb_id = 7, cb_throws = (\<lambda>args. True) \<rparr>"

definition quiet :: "nat \<Rightarrow> callback" where
  "quiet n = \<lparr> cb_id = n, cb_throws = (\<lambda>args. False) \<rparr>"

definition raising_onDisconnect :: handlers where
  "raising_onDisconnect = no_handlers\<lparr>onDisconnect := Some raising\<rparr>"

definition raising_onMessage :: handlers where
  "raising_onMessage = no_handlers\<lparr>onMessage := Some raising\<rparr>"

definition fraud_alert :: json where
  "fraud_alert =
     JObj [(''type'', JStr ''fraud_alert''), (''payload'', JObj [(''title'', JStr ''x'')])]"

text \<open>A manager with an open connection \<^verbatim>\<open>feed\<close>.\<close>

definition open_feed :: manager where
  "open_feed = run page [Connect ''feed'' feed_url no_handlers, WsOpen 0]"

text \<open>The state in which the reconnect timer of \<^verbatim>\<open>feed\<close> is pending, and the timer's closure.\<close>

definition pending_reconnect :: manager where
  "pending_reconnect = run page [Connect ''feed'' feed_url no_handlers, WsClose 0 1006 []]"

definition feed_timer :: timeout_entry where
  "feed_timer = \<lparr> t_id = 1, t_delay = 3000, t_name = ''feed'', t_url = feed_url,
                   t_handlers = no_handlers, t_attempts = 0 \<rparr>"

text \<open>Three subscriptions, two of them for \<^verbatim>\<open>fraud_alert\<close>.\<close>

definition subscribed :: manager where
  "subscribed =
     subscribe ''fraud_alert'' (quiet 3)
       (subscribe ''other'' (quiet 2) (subscribe ''fraud_alert'' (quiet 1) page))"

text \<open>The probe response, and handlers whose \<^verbatim>\<open>onMessage\<close> returns.\<close>

definition pong :: json where
  "pong = JObj [(''type'', JStr ''pong'')]"

definition listening :: handlers where
  "listening = no_handlers\<lparr>onMessage := Some (quiet 9)\<rparr>"

subsection \<open>The registry invariant\<close>

text \<open>Every transport that is connecting or open is the one registered under its name.\<close>

definition registered :: "manager \<Rightarrow> bool" where
  "registered st =
     (\<forall>ws < length (sockets st).
        live (sockets st ! ws) \<longrightarrow> map_of (connections st) (ws_name (sockets st ! ws)) = Some ws)"

text \<open>Two states with the same sockets and the same registry.\<close>

definition same_transports :: "manager \<Rightarrow> manager \<Rightarrow> bool" where
  "same_transports st' st = (sockets st' = sockets st \<and> connections st' = connections st)"

lemmas method_defs =
  connect_def disconnect_def updateStatus_def new_WebSocket_def socket_def set_readyState_def
  ws_onclose_def ws_onopen_def ws_onerror_def ws_onmessage_def ws_onmessage_try_def
  console_log_def console_error_def stopHeartbeat_def startHeartbeat_def invoke_opt_def
  invoke_def scheduleReconnect_def setTimeout_def reconnect_timer_def ws_close_def ws_send_def
  heartbeat_tick_def send_def subscribe_def emitEvent_def listener_def JSON_stringify_def
  isConnected_def

lemmas scenario_defs =
  page_def TIMBWebSocket_def no_handlers_def feed_url_def run_def raising_def quiet_def
  raising_onDisconnect_def raising_onMessage_def fraud_alert_def open_feed_def
  pending_reconnect_def feed_timer_def subscribed_def pong_def listening_def

section \<open>Properties\<close>

subsection \<open>What the methods leave unchanged\<close>

lemma disconnect_timeouts: "timeouts (disconnect name st) = timeouts st"
  by (simp add: disconnect_def stopHeartbeat_def ws_close_def Let_def split: option.splits)

lemma disconnect_accepts: "accepts (disconnect name st) = accepts st"
  by (simp add: disconnect_def stopHeartbeat_def ws_close_def Let_def split: option.splits)

lemma disconnect_length: "length (sockets (disconnect name st)) = length (sockets st)"
  by (simp add: disconnect_def stopHeartbeat_def ws_close_def Let_def split: option.splits)

lemma connect_registers:
  "accepts st url \<Longrightarrow>
   map_of (connections (snd (connect name url hs st))) name = Some (length (sockets st)) \<and>
   socket (snd (connect name url hs st)) (length (sockets st)) = Some (new_WebSocket name url hs)"
  by (simp add: connect_def Let_def updateStatus_def disconnect_accepts disconnect_length socket_def
      update_conv' nth_append split: option.splits)

lemma listener_calls:
  "snd (listener eventType cb source data st) =
     st\<lparr>calls := calls st @
        map (\<lambda>(ty, cb). (cb_id cb, SubscriberArgs (payload_of data) source))
          (matching data [(eventType, cb)])\<rparr>"
  by (cases data) (simp_all add: listener_def matching_def payload_of_def invoke_def split: sum.splits)

lemma matching_Cons: "matching data (x # subs) = matching data [x] @ matching data subs"
  by (simp add: matching_def)

lemma dispatch_calls:
  "foldl (\<lambda>s (eventType, cb). snd (listener eventType cb source data s)) st subs =
     st\<lparr>calls := calls st @
        map (\<lambda>(ty, cb). (cb_id cb, SubscriberArgs (payload_of data) source)) (matching data subs)\<rparr>"
proof (induction subs arbitrary: st)
  case Nil
  show ?case by (simp add: matching_def)
next
  case (Cons x subs)
  obtain ty cb where x: "x = (ty, cb)" by (cases x)
  let ?F = "\<lambda>s (eventType, cb). snd (listener eventType cb source data s)"
  let ?s1 = "snd (listener ty cb source data st)"
  have "foldl ?F st (x # subs) = foldl ?F ?s1 subs"
    by (simp add: x)
  also have "\<dots> = ?s1\<lparr>calls := calls ?s1 @
        map (\<lambda>(ty, cb). (cb_id cb, SubscriberArgs (payload_of data) source)) (matching data subs)\<rparr>"
    by (rule Cons.IH)
  also have "\<dots> = st\<lparr>calls := calls st @
        map (\<lambda>(ty, cb). (cb_id cb, SubscriberArgs (payload_of data) source))
          (matching data (x # subs))\<rparr>"
    by (simp add: listener_calls matching_Cons[of data "(ty, cb)" subs] x)
  finally show ?case .
qed

lemma same_transports_refl: "same_transports st st"
  by (simp add: same_transports_def)

lemma same_transports_trans:
  "same_transports st'' st' \<Longrightarrow> same_transports st' st \<Longrightarrow> same_transports st'' st"
  by (simp add: same_transports_def)

lemma same_registered: "same_transports st' st \<Longrightarrow> registered st \<Longrightarrow> registered st'"
  by (simp add: same_transports_def registered_def)

lemma same_console_log: "same_transports (console_log args st) st"
  by (simp add: same_transports_def console_log_def)

lemma same_console_error: "same_transports (console_error args st) st"
  by (simp add: same_transports_def console_error_def)

lemma same_updateStatus: "same_transports (updateStatus s m st) st"
  by (simp add: same_transports_def updateStatus_def split: option.splits)

lemma same_invoke_opt: "same_transports (snd (invoke_opt h args st)) st"
  by (simp add: same_transports_def invoke_opt_def invoke_def split: option.splits)

lemma same_stopHeartbeat: "same_transports (stopHeartbeat name st) st"
  by (simp add: same_transports_def stopHeartbeat_def split: option.splits)

lemma same_startHeartbeat: "same_transports (startHeartbeat name st) st"
  by (simp add: same_transports_def startHeartbeat_def split: option.splits)

lemma same_scheduleReconnect: "same_transports (scheduleReconnect name url hs st) st"
  by (simp add: same_transports_def scheduleReconnect_def setTimeout_def updateStatus_def
      console_log_def Let_def split: option.splits)

lemma same_foldl:
  assumes "\<And>s x. same_transports (f s x) s"
  shows "same_transports (foldl f st xs) st"
proof (induction xs arbitrary: st)
  case Nil
  show ?case by (simp add: same_transports_refl)
next
  case (Cons x xs)
  show ?case using Cons.IH[of "f st x"] assms[of st x]
    by (simp add: same_transports_def)
qed

lemma same_listener: "same_transports (snd (listener ty cb source data st)) st"
  by (simp add: same_transports_def listener_def invoke_def split: sum.splits)

lemma same_emitEvent: "same_transports (emitEvent source data st) st"
  unfolding emitEvent_def
  by (rule same_foldl) (simp add: same_listener split: prod.splits)

lemma same_ws_onmessage_try: "same_transports (snd (ws_onmessage_try name hs f st)) st"
proof (cases "JSON_parse f")
  case (Inl err)
  then show ?thesis by (simp add: ws_onmessage_try_def same_transports_refl)
next
  case (Inr data)
  obtain c s1 where inv: "invoke_opt (onMessage hs) (MessageArg data) st = (c, s1)"
    by (cases "invoke_opt (onMessage hs) (MessageArg data) st")
  have s1: "same_transports s1 st"
    using same_invoke_opt[of "onMessage hs" "MessageArg data" st] by (simp add: inv)
  have s2: "same_transports (emitEvent name data s1) st"
    by (rule same_transports_trans[OF same_emitEvent s1])
  show ?thesis
    using Inr s1 s2
    by (simp add: ws_onmessage_try_def inv same_transports_refl split: sum.splits completion.splits)
qed

lemma same_ws_onmessage: "same_transports (snd (ws_onmessage name hs f st)) st"
proof -
  obtain c s1 where body: "ws_onmessage_try name hs f st = (c, s1)"
    by (cases "ws_onmessage_try name hs f st")
  have s1: "same_transports s1 st"
    using same_ws_onmessage_try[of name hs f st] by (simp add: body)
  have s2: "same_transports (console_error args s1) st" for args
    by (rule same_transports_trans[OF same_console_error s1])
  show ?thesis
    using s1 s2 by (simp add: ws_onmessage_def body split: completion.splits)
qed

lemma same_ws_onopen: "same_transports (snd (ws_onopen name hs st)) st"
  by (simp add: ws_onopen_def Let_def same_transports_def invoke_opt_def invoke_def
      startHeartbeat_def console_log_def split: option.splits)

lemma same_ws_onerror: "same_transports (snd (ws_onerror name hs st)) st"
  by (simp add: ws_onerror_def same_transports_def invoke_opt_def invoke_def
      console_error_def split: option.splits)

lemma same_ws_onclose: "same_transports (snd (ws_onclose name url hs code reason st)) st"
proof -
  let ?s2 = "stopHeartbeat name
               (console_log [S (''WebSocket '' @ name @ '' closed:''), N code, S reason] st)"
  let ?r = "invoke_opt (onDisconnect hs) (CloseEventArg code reason) ?s2"
  have s2: "same_transports ?s2 st"
    by (rule same_transports_trans[OF same_stopHeartbeat same_console_log])
  have s3: "same_transports (snd ?r) st"
    by (rule same_transports_trans[OF same_invoke_opt s2])
  have s4: "same_transports (scheduleReconnect name url hs (snd ?r)) st"
    by (rule same_transports_trans[OF same_scheduleReconnect s3])
  show ?thesis
    using s3 s4 by (cases ?r) (auto simp add: ws_onclose_def Let_def split: completion.splits)
qed

lemma same_pauseHeartbeats: "same_transports (pauseHeartbeats st) st"
  by (simp add: same_transports_def pauseHeartbeats_def)

lemma same_resumeHeartbeats: "same_transports (resumeHeartbeats st) st"
  unfolding resumeHeartbeats_def
  by (rule same_foldl) (simp add: same_startHeartbeat same_transports_refl split: prod.splits option.splits)

lemma same_subscribe: "same_transports (subscribe ty cb st) st"
  by (simp add: same_transports_def subscribe_def)

text \<open>Methods that change a socket.\<close>

lemma registered_ws_send: "registered st \<Longrightarrow> registered (ws_send ws f st)"
  by (auto simp add: registered_def ws_send_def socket_def live_def nth_list_update)

lemma registered_send: "registered st \<Longrightarrow> registered (snd (send name data st))"
  by (simp add: send_def registered_ws_send split: option.splits)

lemma registered_heartbeat_tick: "registered st \<Longrightarrow> registered (heartbeat_tick e st)"
  by (simp add: heartbeat_tick_def registered_ws_send same_registered[OF same_stopHeartbeat]
      split: option.splits)

lemma registered_set_readyState:
  "registered st \<Longrightarrow> ws < length (sockets st) \<Longrightarrow> live (sockets st ! ws) \<Longrightarrow>
   registered (set_readyState ws r st)"
  by (auto simp add: registered_def set_readyState_def nth_list_update)

lemma nth_update_if: "j < length xs \<Longrightarrow> (xs[i := x]) ! j = (if i = j then x else xs ! j)"
  by (cases "i = j") simp_all

lemma registered_set_CLOSED: "registered st \<Longrightarrow> registered (set_readyState ws CLOSED st)"
  by (simp add: registered_def set_readyState_def nth_update_if live_def)

lemma registered_disconnect: "registered st \<Longrightarrow> registered (disconnect name st)"
proof (cases "map_of (connections st) name")
  case None
  assume "registered st"
  with None show ?thesis by (simp add: disconnect_def)
next
  case (Some ws)
  assume r: "registered st"
  let ?s1 = "stopHeartbeat name st"
  let ?s2 = "ws_close ws 1000 ''Intentional disconnect'' ?s1"
  have s1: "sockets ?s1 = sockets st" "connections ?s1 = connections st"
    using same_stopHeartbeat[of name st] by (simp_all add: same_transports_def)
  have d: "disconnect name st =
      ?s2\<lparr>connections := AList.delete name (connections ?s2),
           messageHandlers := AList.delete name (messageHandlers ?s2),
           reconnectAttempts := AList.delete name (reconnectAttempts ?s2)\<rparr>"
    using Some by (simp add: disconnect_def Let_def)
  have c2: "connections ?s2 = connections st"
    by (simp add: ws_close_def s1 split: option.splits)
  have l2: "length (sockets ?s2) = length (sockets st)"
    by (simp add: ws_close_def s1 split: option.splits)
  have n2: "ws_name (sockets ?s2 ! i) = ws_name (sockets st ! i)" if "i < length (sockets st)" for i
    using that by (auto simp add: ws_close_def s1 socket_def nth_list_update split: option.splits)
  have live2: "live (sockets st ! i) \<and> i \<noteq> ws"
    if "i < length (sockets st)" "live (sockets ?s2 ! i)" for i
    using that
    by (auto simp add: ws_close_def s1 socket_def nth_list_update live_def split: option.splits if_splits)
  show ?thesis
    unfolding d registered_def
  proof (intro allI impI)
    fix i
    assume i: "i < length (sockets (?s2\<lparr>connections := AList.delete name (connections ?s2),
           messageHandlers := AList.delete name (messageHandlers ?s2),
           reconnectAttempts := AList.delete name (reconnectAttempts ?s2)\<rparr>))"
      and lv: "live (sockets (?s2\<lparr>connections := AList.delete name (connections ?s2),
           messageHandlers := AList.delete name (messageHandlers ?s2),
           reconnectAttempts := AList.delete name (reconnectAttempts ?s2)\<rparr>) ! i)"
    from i have i': "i < length (sockets st)" by (simp add: l2)
    from lv have "live (sockets ?s2 ! i)" by simp
    from live2[OF i' this] have lv': "live (sockets st ! i)" and ne: "i \<noteq> ws" by simp_all
    from r i' lv' have reg: "map_of (connections st) (ws_name (sockets st ! i)) = Some i"
      by (simp add: registered_def)
    with Some ne have "ws_name (sockets st ! i) \<noteq> name" by auto
    then show "map_of (connections (?s2\<lparr>connections := AList.delete name (connections ?s2),
           messageHandlers := AList.delete name (messageHandlers ?s2),
           reconnectAttempts := AList.delete name (reconnectAttempts ?s2)\<rparr>))
         (ws_name (sockets (?s2\<lparr>connections := AList.delete name (connections ?s2),
           messageHandlers := AList.delete name (messageHandlers ?s2),
           reconnectAttempts := AList.delete name (reconnectAttempts ?s2)\<rparr>) ! i)) = Some i"
      using reg by (simp add: n2[OF i'] c2 delete_conv')
  qed
qed

lemma disconnect_unregisters: "map_of (connections (disconnect name st)) name = None"
  by (simp add: disconnect_def Let_def delete_conv' ws_close_def stopHeartbeat_def split: option.splits)

lemma registered_connect: 
  assumes "registered st" shows "registered (snd (connect name url hs st))"
proof -
  let ?s1 = "if map_of (connections st) name \<noteq> None then disconnect name st else st"
  let ?s2 = "updateStatus ''connecting'' ''Connecting...'' ?s1"
  have r1: "registered ?s1" using assms by (simp add: registered_disconnect)
  have n1: "map_of (connections ?s1) name = None" by (simp add: disconnect_unregisters)
  have s2: "same_transports ?s2 ?s1" by (rule same_updateStatus)
  have r2: "registered ?s2" by (rule same_registered[OF s2 r1])
  have n2: "map_of (connections ?s2) name = None" using n1 s2 by (simp add: same_transports_def)
  show ?thesis
  proof (cases "accepts ?s2 url")
    case True
    let ?s4 = "?s2\<lparr>sockets := sockets ?s2 @ [new_WebSocket name url hs],
                   connections := AList.update name (length (sockets ?s2)) (connections ?s2),
                   messageHandlers := AList.update name hs (messageHandlers ?s2)\<rparr>"
    have c: "snd (connect name url hs st) = ?s4"
      using True by (simp add: connect_def Let_def)
    have "registered ?s4"
      unfolding registered_def
    proof (intro allI impI)
      fix i assume i: "i < length (sockets ?s4)" and lv: "live (sockets ?s4 ! i)"
      show "map_of (connections ?s4) (ws_name (sockets ?s4 ! i)) = Some i"
      proof (cases "i < length (sockets ?s2)")
        case True
        with lv have lv2: "live (sockets ?s2 ! i)" by (simp add: nth_append)
        with r2 True have reg: "map_of (connections ?s2) (ws_name (sockets ?s2 ! i)) = Some i"
          by (simp add: registered_def)
        with n2 have "ws_name (sockets ?s2 ! i) \<noteq> name" by auto
        with reg True show ?thesis by (simp add: nth_append update_conv')
      next
        case False
        with i have "i = length (sockets ?s2)" by simp
        then show ?thesis by (simp add: nth_append update_conv' new_WebSocket_def)
      qed
    qed
    with c show ?thesis by simp
  next
    case False
    let ?s4 = "updateStatus ''disconnected'' ''Connection Failed''
                (console_error [S (''Failed to create WebSocket '' @ name @ '':''), E DOMException] ?s2)"
    have c: "snd (connect name url hs st) = snd (invoke_opt (onError hs) (ExceptionArg DOMException) ?s4)"
      using False by (simp add: connect_def Let_def)
    have "same_transports ?s4 ?s2"
      by (rule same_transports_trans[OF same_updateStatus same_console_error])
    from same_transports_trans[OF same_invoke_opt this]
    show ?thesis unfolding c by (rule same_registered) (rule r2)
  qed
qed

lemma registered_beforeunload: "registered st \<Longrightarrow> registered (beforeunload st)"
proof -
  have "registered s \<Longrightarrow> registered (foldl (\<lambda>s name. disconnect name s) s names)" for s names
    by (induction names arbitrary: s) (simp_all add: registered_disconnect)
  then show "registered st \<Longrightarrow> registered (beforeunload st)"
    by (simp add: beforeunload_def)
qed

lemma registered_reconnect_timer: "registered st \<Longrightarrow> registered (snd (reconnect_timer e st))"
  unfolding reconnect_timer_def
  by (rule registered_connect) (simp add: registered_def)

lemma registered_step: "registered st \<Longrightarrow> registered (step st ev)"
proof (cases ev)
  case (Connect name url hs)
  assume "registered st" with Connect show ?thesis by (simp add: registered_connect)
next
  case (Disconnect name)
  assume "registered st" with Disconnect show ?thesis by (simp add: registered_disconnect)
next
  case (Send name data)
  assume "registered st" with Send show ?thesis by (simp add: registered_send)
next
  case (Subscribe ty cb)
  assume "registered st" with Subscribe show ?thesis
    by (simp add: same_registered[OF same_subscribe])
next
  case (WsOpen ws)
  assume r: "registered st"
  show ?thesis
  proof (cases "socket st ws")
    case None with r WsOpen show ?thesis by simp
  next
    case (Some t)
    then have ws: "ws < length (sockets st)" "sockets st ! ws = t"
      by (simp_all add: socket_def split: if_splits)
    show ?thesis
    proof (cases "readyState t = CONNECTING")
      case True
      with ws have "live (sockets st ! ws)" by (simp add: live_def)
      from registered_set_readyState[OF r ws(1) this]
      have "registered (set_readyState ws OPEN st)" .
      from same_registered[OF same_ws_onopen this] WsOpen Some True
      show ?thesis by simp
    next
      case False with r WsOpen Some show ?thesis by simp
    qed
  qed
next
  case (WsMessage ws f)
  assume "registered st" with WsMessage show ?thesis
    by (simp add: same_registered[OF same_ws_onmessage] split: option.splits)
next
  case (WsClose ws code reason)
  assume r: "registered st"
  from same_registered[OF same_ws_onclose registered_set_CLOSED[OF r]] r WsClose
  show ?thesis by (simp split: option.splits)
next
  case (WsError ws)
  assume "registered st" with WsError show ?thesis
    by (simp add: same_registered[OF same_ws_onerror] split: option.splits)
next
  case (TimeoutFire timer)
  assume r: "registered st"
  have "registered (st\<lparr>timeouts := ts\<rparr>)" for ts using r by (simp add: registered_def)
  from registered_reconnect_timer[OF this] r TimeoutFire
  show ?thesis by (simp split: option.splits)
next
  case (IntervalTick timer)
  assume "registered st" with IntervalTick show ?thesis
    by (simp add: registered_heartbeat_tick split: option.splits)
next
  case PageHidden
  assume "registered st" with PageHidden show ?thesis
    by (simp add: same_registered[OF same_pauseHeartbeats])
next
  case PageVisible
  assume "registered st" with PageVisible show ?thesis
    by (simp add: same_registered[OF same_resumeHeartbeats])
next
  case BeforeUnload
  assume "registered st" with BeforeUnload show ?thesis
    by (simp add: registered_beforeunload)
qed

lemma registered_run: "registered st \<Longrightarrow> registered (run st evs)"
  unfolding run_def by (induction evs arbitrary: st) (simp_all add: registered_step)

lemma registered_new: "registered (TIMBWebSocket acc)"
  by (simp add: registered_def TIMBWebSocket_def)

lemma filter_at_most_one:
  assumes "\<And>i j. i < length xs \<Longrightarrow> j < length xs \<Longrightarrow> P (xs ! i) \<Longrightarrow> P (xs ! j) \<Longrightarrow> i = j"
  shows "length (filter P xs) \<le> 1"
  using assms
proof (induction xs)
  case Nil
  show ?case by simp
next
  case (Cons x xs)
  have tl: "\<And>i j. i < length xs \<Longrightarrow> j < length xs \<Longrightarrow> P (xs ! i) \<Longrightarrow> P (xs ! j) \<Longrightarrow> i = j"
    using Cons.prems[of "Suc _" "Suc _"] by simp
  show ?case
  proof (cases "P x")
    case False
    with Cons.IH[OF tl] show ?thesis by simp
  next
    case True
    have "\<not> P (xs ! k)" if "k < length xs" for k
      using Cons.prems[of 0 "Suc k"] True that by auto
    then have "filter P xs = []"
      by (auto simp add: filter_empty_conv in_set_conv_nth)
    with True show ?thesis by simp
  qed
qed

lemma registered_one_live: "registered st \<Longrightarrow> length (live_transports name st) \<le> 1"
  unfolding live_transports_def
proof (rule filter_at_most_one)
  fix i j
  assume r: "registered st" and i: "i < length (sockets st)" and j: "j < length (sockets st)"
    and pi: "ws_name (sockets st ! i) = name \<and> live (sockets st ! i)"
    and pj: "ws_name (sockets st ! j) = name \<and> live (sockets st ! j)"
  from r i pi have "map_of (connections st) name = Some i" by (auto simp add: registered_def)
  moreover from r j pj have "map_of (connections st) name = Some j" by (auto simp add: registered_def)
  ultimately show "i = j" by simp
qed

subsection \<open>Reconnection\<close>

text \<open>
  What the reconnect timer does to the attempt counter when the name is still registered,
  as it is after a closure: \<^verbatim>\<open>connect\<close> calls \<^verbatim>\<open>disconnect\<close>, which deletes the entry
  that the timer has just written.
\<close>

lemma disconnect_reconnectAttempts:
  "map_of (connections st) name \<noteq> None \<Longrightarrow>
   map_of (reconnectAttempts (disconnect name st)) name = None"
  by (auto simp add: disconnect_def Let_def delete_conv' ws_close_def stopHeartbeat_def
      split: option.splits)

lemma connect_reconnectAttempts:
  "reconnectAttempts (snd (connect name url hs st)) =
     reconnectAttempts (if map_of (connections st) name \<noteq> None then disconnect name st else st)"
  by (simp add: connect_def Let_def updateStatus_def console_error_def invoke_opt_def invoke_def
      split: option.splits)

lemma reconnect_timer_deletes_counter:
  "map_of (connections st) (t_name e) \<noteq> None \<Longrightarrow>
   map_of (reconnectAttempts (snd (reconnect_timer e st))) (t_name e) = None"
  by (simp add: reconnect_timer_def connect_reconnectAttempts disconnect_reconnectAttempts)

text \<open>
  \<^verbatim>\<open>scheduleReconnect\<close> itself gives up when the counter has reached the maximum: it sets
  no timer and reports the failure.
\<close>

lemma scheduleReconnect_at_max:
  "map_of (reconnectAttempts st) name = Some n \<Longrightarrow> maxReconnectAttempts st \<le> n \<Longrightarrow>
   timeouts (scheduleReconnect name url hs st) = timeouts st \<and>
   (statusIndicator st \<noteq> None \<longrightarrow>
      statusIndicator (scheduleReconnect name url hs st)
        = Some (''disconnected'', ''Connection Failed''))"
  by (auto simp add: scheduleReconnect_def updateStatus_def console_log_def split: option.splits)

text \<open>
  C1. The claim: after N consecutive closures with a code other than 1000, N below the
  maximum, N reconnects are scheduled, the k-th with the delay \<open>reconnectDelay * 2 ^ k\<close>.
  The code does not do that. The reconnect timer stores \<open>attempts + 1\<close> and calls
  \<^verbatim>\<open>connect\<close>; the closed transport is still registered, so \<^verbatim>\<open>connect\<close> calls
  \<^verbatim>\<open>disconnect\<close>, which deletes the counter. The next closure reads the counter as 0: after
  the second closure the scheduled delay is 3000 again, where the claim has
  \<open>3000 * 2 ^ 1 = 6000\<close>.
\<close>

theorem backoff_delay_repeats:
  "map t_delay (timeouts (run page (take 2 two_closures))) = [3000] \<and>
   reconnectAttempts (run page (take 3 two_closures)) = [] \<and>
   map t_delay (timeouts (run page two_closures)) = [3000] \<and>
   map t_attempts (timeouts (run page two_closures)) = [0] \<and>
   reconnectDelay page * 2 ^ 1 = 6000"
  by (simp add: two_closures_def scenario_defs method_defs Let_def)

text \<open>
  C2. The claim: once five reconnects in a row have failed, no reconnect is scheduled any
  more and the status reports the failure. On the code the counter is deleted by every
  reconnect (see C1), so it never reaches \<open>maxReconnectAttempts\<close> this way: after the
  initial closure and five failed reconnects a sixth reconnect is pending, and the status
  reads \<^verbatim>\<open>Reconnecting... (1/5)\<close>.
\<close>

theorem reconnect_after_max_failures:
  "map t_delay (timeouts (run page six_closures)) = [3000] \<and>
   map t_attempts (timeouts (run page six_closures)) = [0] \<and>
   length (sockets (run page six_closures)) = 6 \<and>
   statusIndicator (run page six_closures) = Some (''connecting'', ''Reconnecting... (1/5)'')"
  by (simp add: six_closures_def scenario_defs method_defs Let_def show_nat.simps digit_def)

text \<open>
  C3. The claim: \<^verbatim>\<open>disconnect(name)\<close> cancels a pending reconnect timer of the name, so
  that no connect follows. It fails on the code: after \<^verbatim>\<open>disconnect('feed')\<close> the timer
  is still pending, and when it runs a second transport is opened and registered.
\<close>

theorem reconnect_after_disconnect:
  "map t_id (timeouts (run page disconnect_while_pending)) = [1] \<and>
   connections (run page disconnect_while_pending) = [] \<and>
   connections (step (run page disconnect_while_pending) (TimeoutFire 1)) = [(''feed'', 1)] \<and>
   map readyState (sockets (step (run page disconnect_while_pending) (TimeoutFire 1)))
     = [CLOSED, CONNECTING]"
  by (simp add: disconnect_while_pending_def scenario_defs method_defs Let_def)

text \<open>
  C3 as the code has it: \<^verbatim>\<open>disconnect(name)\<close> leaves every pending reconnect timer
  pending; when such a timer runs after the \<^verbatim>\<open>disconnect\<close> and the constructor accepts
  its address, a new transport is opened for the timer's name and registered under it.
\<close>

theorem disconnect_keeps_reconnect_timer:
  "timeouts (disconnect name st) = timeouts st \<and>
   (find (\<lambda>e. t_id e = timer) (timeouts st) = Some e \<longrightarrow> accepts st (t_url e) \<longrightarrow>
      map_of (connections (step (disconnect name st) (TimeoutFire timer))) (t_name e)
        = Some (length (sockets st)) \<and>
      socket (step (disconnect name st) (TimeoutFire timer)) (length (sockets st))
        = Some (new_WebSocket (t_name e) (t_url e) (t_handlers e)))"
proof (intro conjI impI)
  show "timeouts (disconnect name st) = timeouts st" by (rule disconnect_timeouts)
next
  assume f: "find (\<lambda>e. t_id e = timer) (timeouts st) = Some e" and a: "accepts st (t_url e)"
  let ?d = "disconnect name st"
  let ?s = "?d\<lparr>timeouts := filter (\<lambda>e. t_id e \<noteq> timer) (timeouts ?d), reconnectAttempts :=
             AList.update (t_name e) (t_attempts e + 1) (reconnectAttempts (disconnect name st))\<rparr>"
  have st: "step ?d (TimeoutFire timer) = snd (connect (t_name e) (t_url e) (t_handlers e) ?s)"
    using f by (simp add: disconnect_timeouts reconnect_timer_def)
  have acc: "accepts ?s (t_url e)" using a by (simp add: disconnect_accepts)
  have len: "length (sockets ?s) = length (sockets st)" by (simp add: disconnect_length)
  note r = connect_registers[OF acc, of "t_name e" "t_handlers e", unfolded len]
  show "map_of (connections (step ?d (TimeoutFire timer))) (t_name e) = Some (length (sockets st))"
    unfolding st using r by blast
  show "socket (step ?d (TimeoutFire timer)) (length (sockets st))
        = Some (new_WebSocket (t_name e) (t_url e) (t_handlers e))"
    unfolding st using r by blast
qed

theorem disconnect_keeps_reconnect_timer_witness:
  "find (\<lambda>e. t_id e = 1) (timeouts pending_reconnect) = Some feed_timer \<and>
   accepts pending_reconnect (t_url feed_timer) \<and>
   timeouts (disconnect ''feed'' pending_reconnect) = [feed_timer] \<and>
   map_of (connections (step (disconnect ''feed'' pending_reconnect) (TimeoutFire 1))) ''feed''
     = Some 1"
proof -
  have ts: "timeouts pending_reconnect = [feed_timer]"
    by (simp add: scenario_defs method_defs Let_def)
  have len: "length (sockets pending_reconnect) = 1"
    by (simp add: scenario_defs method_defs Let_def)
  have f: "find (\<lambda>e. t_id e = 1) (timeouts pending_reconnect) = Some feed_timer"
    by (simp add: ts) (simp add: feed_timer_def)
  have a: "accepts pending_reconnect (t_url feed_timer)"
    by (simp add: scenario_defs method_defs Let_def)
  have n: "t_name feed_timer = ''feed''"
    by (simp add: feed_timer_def)
  note inst = disconnect_keeps_reconnect_timer[of "''feed''" pending_reconnect 1 feed_timer]
  from inst have t1: "timeouts (disconnect ''feed'' pending_reconnect) = [feed_timer]"
    unfolding ts by blast
  from inst f a
  have "map_of (connections (step (disconnect ''feed'' pending_reconnect) (TimeoutFire 1)))
          (t_name feed_timer) = Some (length (sockets pending_reconnect))"
    by blast
  then have t2: "map_of (connections (step (disconnect ''feed'' pending_reconnect)
                   (TimeoutFire 1))) ''feed'' = Some 1"
    unfolding n len .
  from f a t1 t2 show ?thesis by blast
qed

text \<open>
  C5. The claim: a closure with code 1000 never schedules a reconnect, and a closure with
  any other code enters the reconnect path. The second half fails where the connection has
  an \<^verbatim>\<open>onDisconnect\<close> handler that raises: the exception leaves \<^verbatim>\<open>ws.onclose\<close> before the
  test of the code, and \<^verbatim>\<open>scheduleReconnect\<close> is not called (no timer, and neither of its
  console lines).
\<close>

theorem raising_onDisconnect_no_reconnect:
  "fst (ws_onclose ''feed'' feed_url raising_onDisconnect 1006 [] page)
     = Throw (CallbackThrew 7) \<and>
   timeouts (snd (ws_onclose ''feed'' feed_url raising_onDisconnect 1006 [] page)) = [] \<and>
   console (snd (ws_onclose ''feed'' feed_url raising_onDisconnect 1006 [] page))
     = [Log [S ''WebSocket feed closed:'', N 1006, S []]]"
  by (simp add: scenario_defs method_defs Let_def)

text \<open>
  C5 as the code has it: a closure with code 1000 never schedules a reconnect; a closure
  with any other code calls \<^verbatim>\<open>scheduleReconnect\<close>, after the heartbeat was stopped and
  the \<^verbatim>\<open>onDisconnect\<close> handler was called, when that handler is absent or returns; when
  the handler raises, no reconnect is scheduled.
\<close>

theorem close_code_decides_reconnect:
  "timeouts (snd (ws_onclose name url hs 1000 reason st)) = timeouts st \<and>
   (code \<noteq> 1000 \<longrightarrow> returns (onDisconnect hs) (CloseEventArg code reason) \<longrightarrow>
      ws_onclose name url hs code reason st =
        (Normal, scheduleReconnect name url hs
           (snd (invoke_opt (onDisconnect hs) (CloseEventArg code reason)
              (stopHeartbeat name
                 (console_log [S (''WebSocket '' @ name @ '' closed:''), N code, S reason]
                    st)))))) \<and>
   (\<not> returns (onDisconnect hs) (CloseEventArg code reason) \<longrightarrow>
      timeouts (snd (ws_onclose name url hs code reason st)) = timeouts st)"
  by (auto simp add: ws_onclose_def returns_def invoke_opt_def invoke_def Let_def
        stopHeartbeat_def console_log_def
      split: option.splits prod.splits completion.splits)

theorem close_code_decides_reconnect_witness:
  "(1006::nat) \<noteq> 1000 \<and> returns (onDisconnect no_handlers) (CloseEventArg 1006 []) \<and>
   map t_delay (timeouts (snd (ws_onclose ''feed'' feed_url no_handlers 1006 [] page))) = [3000] \<and>
   \<not> returns (onDisconnect raising_onDisconnect) (CloseEventArg 1006 []) \<and>
   timeouts (snd (ws_onclose ''feed'' feed_url raising_onDisconnect 1006 [] page)) = []"
proof -
  have h1: "(1006::nat) \<noteq> 1000" by simp
  have h2: "returns (onDisconnect no_handlers) (CloseEventArg 1006 [])"
    by (simp add: returns_def no_handlers_def)
  have h3: "\<not> returns (onDisconnect raising_onDisconnect) (CloseEventArg 1006 [])"
    by (simp add: returns_def scenario_defs)
  have p: "timeouts page = []"
    by (simp add: scenario_defs)
  from close_code_decides_reconnect[of "''feed''" feed_url no_handlers "[]" page 1006] h1 h2
  have "ws_onclose ''feed'' feed_url no_handlers 1006 [] page =
        (Normal, scheduleReconnect ''feed'' feed_url no_handlers
           (snd (invoke_opt (onDisconnect no_handlers) (CloseEventArg 1006 [])
              (stopHeartbeat ''feed''
                 (console_log [S (''WebSocket '' @ ''feed'' @ '' closed:''), N 1006, S []]
                    page)))))"
    by blast
  then have c1: "map t_delay (timeouts (snd (ws_onclose ''feed'' feed_url no_handlers 1006 []
                   page))) = [3000]"
    by (simp add: scenario_defs scheduleReconnect_def setTimeout_def updateStatus_def
        console_log_def stopHeartbeat_def invoke_opt_def Let_def)
  from close_code_decides_reconnect[of "''feed''" feed_url raising_onDisconnect "[]" page 1006] h3
  have c2: "timeouts (snd (ws_onclose ''feed'' feed_url raising_onDisconnect 1006 [] page)) = []"
    unfolding p by blast
  from h1 h2 c1 h3 c2 show ?thesis by blast
qed

subsection \<open>One transport per name\<close>

text \<open>
  C4. Whatever calls and platform events a manager has seen since its construction, at most
  one transport per name is connecting or open. When \<^verbatim>\<open>connect(name, ...)\<close> finds a
  connection registered under the name, it is \<^verbatim>\<open>connect\<close> on the state that
  \<^verbatim>\<open>disconnect(name)\<close> leaves, in which the registered transport is closing or closed: the
  old transport is torn down before the new one is opened.
\<close>

theorem one_live_transport_per_name:
  "length (live_transports name (run (TIMBWebSocket acc) evs)) \<le> 1 \<and>
   (map_of (connections st) name' = Some ws \<longrightarrow> socket st ws = Some t \<longrightarrow>
      (\<exists>t'. socket (disconnect name' st) ws = Some t' \<and> \<not> live t') \<and>
      connect name' url hs st = connect name' url hs (disconnect name' st))"
proof (intro conjI impI)
  show "length (live_transports name (run (TIMBWebSocket acc) evs)) \<le> 1"
    by (rule registered_one_live[OF registered_run[OF registered_new]])
next
  assume "map_of (connections st) name' = Some ws" "socket st ws = Some t"
  then show "\<exists>t'. socket (disconnect name' st) ws = Some t' \<and> \<not> live t'"
    by (auto simp add: disconnect_def Let_def ws_close_def stopHeartbeat_def socket_def live_def
        split: option.splits if_splits)
next
  assume "map_of (connections st) name' = Some ws"
  then show "connect name' url hs st = connect name' url hs (disconnect name' st)"
    by (simp add: connect_def disconnect_unregisters)
qed

theorem one_live_transport_per_name_witness:
  "map_of (connections open_feed) ''feed'' = Some 0 \<and>
   socket open_feed 0 = Some (new_WebSocket ''feed'' feed_url no_handlers\<lparr>readyState := OPEN\<rparr>) \<and>
   length (live_transports ''feed''
     (run (TIMBWebSocket (\<lambda>url. True))
        [Connect ''feed'' feed_url no_handlers, WsOpen 0,
         Connect ''feed'' feed_url no_handlers])) \<le> 1 \<and>
   map readyState (sockets (snd (connect ''feed'' feed_url no_handlers open_feed)))
     = [CLOSING, CONNECTING]"
proof -
  have h1: "map_of (connections open_feed) ''feed'' = Some 0"
    by (simp add: scenario_defs method_defs Let_def)
  have h2: "socket open_feed 0
              = Some (new_WebSocket ''feed'' feed_url no_handlers\<lparr>readyState := OPEN\<rparr>)"
    by (simp add: scenario_defs method_defs Let_def)
  note inst = one_live_transport_per_name[of "''feed''" "\<lambda>url. True"
      "[Connect ''feed'' feed_url no_handlers, WsOpen 0, Connect ''feed'' feed_url no_handlers]"
      open_feed "''feed''" 0 "new_WebSocket ''feed'' feed_url no_handlers\<lparr>readyState := OPEN\<rparr>"
      feed_url no_handlers]
  from inst have c1: "length (live_transports ''feed''
     (run (TIMBWebSocket (\<lambda>url. True))
        [Connect ''feed'' feed_url no_handlers, WsOpen 0,
         Connect ''feed'' feed_url no_handlers])) \<le> 1"
    by blast
  from inst h1 h2
  have "connect ''feed'' feed_url no_handlers open_feed
          = connect ''feed'' feed_url no_handlers (disconnect ''feed'' open_feed)"
    by blast
  moreover have "map readyState (sockets (snd (connect ''feed'' feed_url no_handlers
                   (disconnect ''feed'' open_feed)))) = [CLOSING, CONNECTING]"
    by (simp add: scenario_defs method_defs Let_def)
  ultimately have c2: "map readyState (sockets (snd (connect ''feed'' feed_url no_handlers
                         open_feed))) = [CLOSING, CONNECTING]"
    by simp
  from h1 h2 c1 c2 show ?thesis by blast
qed

subsection \<open>Sending and the heartbeat\<close>

text \<open>
  C6. \<^verbatim>\<open>send(name, message)\<close> returns true exactly when a connection is registered under
  the name and its transport is open (\<^verbatim>\<open>isConnected\<close>); then the serialized message is
  added once to what the transport has sent and nothing else changes. Otherwise it returns
  false and the state is the same: nothing is transmitted and nothing is kept for later.
\<close>

theorem send_iff_open:
  "(isConnected name st \<longrightarrow>
      (\<exists>ws t. map_of (connections st) name = Some ws \<and> socket st ws = Some t \<and>
         send name data st =
           (True, st\<lparr>sockets := (sockets st)
                        [ws := t\<lparr>sent := sent t @ [JSON_stringify data]\<rparr>]\<rparr>))) \<and>
   (\<not> isConnected name st \<longrightarrow> send name data st = (False, st))"
  by (auto simp add: isConnected_def send_def ws_send_def split: option.splits)

theorem send_iff_open_witness:
  "isConnected ''feed'' open_feed \<and>
   fst (send ''feed'' fraud_alert open_feed) \<and>
   map sent (sockets (snd (send ''feed'' fraud_alert open_feed))) = [[Text fraud_alert]] \<and>
   \<not> isConnected ''feed'' page \<and>
   send ''feed'' fraud_alert page = (False, page)"
proof -
  have h1: "isConnected ''feed'' open_feed"
    by (simp add: scenario_defs method_defs Let_def)
  have h2: "\<not> isConnected ''feed'' page"
    by (simp add: scenario_defs method_defs)
  have s: "map_of (connections open_feed) ''feed'' = Some 0"
     "socket open_feed 0 = Some (new_WebSocket ''feed'' feed_url no_handlers\<lparr>readyState := OPEN\<rparr>)"
     "map sent (sockets open_feed) = [[]]" "length (sockets open_feed) = 1"
    by (simp_all add: scenario_defs method_defs Let_def)
  from send_iff_open[of "''feed''" open_feed fraud_alert] h1
  obtain ws t where w: "map_of (connections open_feed) ''feed'' = Some ws"
      "socket open_feed ws = Some t"
      "send ''feed'' fraud_alert open_feed =
         (True, open_feed\<lparr>sockets := (sockets open_feed)
                  [ws := t\<lparr>sent := sent t @ [JSON_stringify fraud_alert]\<rparr>]\<rparr>)"
    by blast
  from w(1) s(1) have ws: "ws = 0" by simp
  from w(2) s(2) ws have t: "t = new_WebSocket ''feed'' feed_url no_handlers\<lparr>readyState := OPEN\<rparr>"
    by simp
  have c1: "fst (send ''feed'' fraud_alert open_feed)" by (simp add: w(3))
  have c2: "map sent (sockets (snd (send ''feed'' fraud_alert open_feed))) = [[Text fraud_alert]]"
    using s(3) s(4)
    by (simp add: w(3) ws t map_update new_WebSocket_def JSON_stringify_def length_Suc_conv)
  from send_iff_open[of "''feed''" page fraud_alert] h2
  have c3: "send ''feed'' fraud_alert page = (False, page)" by blast
  from h1 c1 c2 h2 c3 show ?thesis by blast
qed

text \<open>
  C7. When a heartbeat timer runs and the transport it was started for is open, the frame
  \<^verbatim>\<open>{"type":"ping"}\<close> is sent on that transport and nothing else changes. A received
  message whose type is \<^verbatim>\<open>pong\<close> leaves the state as it is: the \<^verbatim>\<open>onMessage\<close> handler and
  the subscribers are not called.
\<close>

theorem heartbeat_ping_and_pong:
  "(find (\<lambda>e. i_id e = timer) (intervals st) = Some e \<longrightarrow> socket st (i_ws e) = Some t \<longrightarrow>
      readyState t = OPEN \<longrightarrow>
      step st (IntervalTick timer) =
        st\<lparr>sockets := (sockets st)
             [i_ws e := t\<lparr>sent := sent t @ [Text (JObj [(''type'', JStr ''ping'')])]\<rparr>]\<rparr>) \<and>
   (JSON_parse f = Inr data \<longrightarrow> get_prop data ''type'' = Inr (Some (JStr ''pong'')) \<longrightarrow>
      ws_onmessage name hs f st = (Normal, st))"
  by (simp add: heartbeat_tick_def ws_send_def JSON_stringify_def ws_onmessage_def
      ws_onmessage_try_def)

theorem heartbeat_ping_and_pong_witness:
  "find (\<lambda>e. i_id e = 1) (intervals open_feed)
     = Some \<lparr> i_id = 1, i_period = 30000, i_name = ''feed'', i_ws = 0 \<rparr> \<and>
   socket open_feed 0 = Some (new_WebSocket ''feed'' feed_url no_handlers\<lparr>readyState := OPEN\<rparr>) \<and>
   map sent (sockets (step open_feed (IntervalTick 1)))
     = [[Text (JObj [(''type'', JStr ''ping'')])]] \<and>
   JSON_parse (Text pong) = Inr pong \<and>
   get_prop pong ''type'' = Inr (Some (JStr ''pong'')) \<and>
   calls (snd (ws_onmessage ''feed'' listening (Text pong) (subscribe ''pong'' (quiet 4) page)))
     = []"
proof -
  let ?e = "\<lparr> i_id = 1, i_period = 30000, i_name = ''feed'', i_ws = 0 \<rparr>"
  let ?t = "new_WebSocket ''feed'' feed_url no_handlers\<lparr>readyState := OPEN\<rparr>"
  let ?st = "subscribe ''pong'' (quiet 4) page"
  have h1: "find (\<lambda>e. i_id e = 1) (intervals open_feed) = Some ?e"
    by (simp add: scenario_defs method_defs Let_def)
  have h2: "socket open_feed (i_ws ?e) = Some ?t"
    by (simp add: scenario_defs method_defs Let_def)
  have h3: "readyState ?t = OPEN"
    by simp
  have s: "sockets open_feed = [?t]"
    by (simp add: scenario_defs method_defs Let_def)
  have h4: "JSON_parse (Text pong) = Inr pong"
    by simp
  have h5: "get_prop pong ''type'' = Inr (Some (JStr ''pong''))"
    by (simp add: pong_def)
  note inst = heartbeat_ping_and_pong[of 1 open_feed ?e ?t "Text pong" pong "''feed''" listening]
  from inst h1 h2 h3
  have "step open_feed (IntervalTick 1) =
        open_feed\<lparr>sockets := (sockets open_feed)
             [i_ws ?e := ?t\<lparr>sent := sent ?t @ [Text (JObj [(''type'', JStr ''ping'')])]\<rparr>]\<rparr>"
    by blast
  then have c1: "map sent (sockets (step open_feed (IntervalTick 1)))
                   = [[Text (JObj [(''type'', JStr ''ping'')])]]"
    by (simp add: s new_WebSocket_def)
  from heartbeat_ping_and_pong[of 1 ?st ?e ?t "Text pong" pong "''feed''" listening] h4 h5
  have "ws_onmessage ''feed'' listening (Text pong) ?st = (Normal, ?st)"
    by blast
  then have c2: "calls (snd (ws_onmessage ''feed'' listening (Text pong) ?st)) = []"
    by (simp add: scenario_defs subscribe_def)
  from h1 h2 c1 h4 h5 c2 show ?thesis by simp
qed

subsection \<open>Inbound messages\<close>

text \<open>
  C8. A frame that \<^verbatim>\<open>JSON.parse\<close> rejects makes \<^verbatim>\<open>ws.onmessage\<close> return normally with one
  line added to the error console and no other change of the state: no transport is closed,
  no handler is called, nothing is scheduled.
\<close>

theorem parse_failure_dropped:
  "JSON_parse f = Inl err \<Longrightarrow>
   ws_onmessage name hs f st =
     (Normal, st\<lparr>console := console st @
        [Error [S (''Error parsing WebSocket message from '' @ name @ '':''), E err]]\<rparr>)"
  by (simp add: ws_onmessage_def ws_onmessage_try_def console_error_def)

theorem parse_failure_dropped_witness:
  "JSON_parse (Malformed ''{type:'') = Inl SyntaxError \<and>
   ws_onmessage ''feed'' listening (Malformed ''{type:'') open_feed =
     (Normal, open_feed\<lparr>console := console open_feed @
        [Error [S ''Error parsing WebSocket message from feed:'', E SyntaxError]]\<rparr>)"
proof -
  have h: "JSON_parse (Malformed ''{type:'') = Inl SyntaxError" by simp
  from parse_failure_dropped[OF h, of "''feed''" listening open_feed] h
  show ?thesis by simp
qed

text \<open>
  C9. \<^verbatim>\<open>subscribe(messageType, callback)\<close> adds the subscription after those registered
  before. \<^verbatim>\<open>emitEvent(source, data)\<close> calls, in registration order and once each, the
  callbacks of exactly the subscriptions whose type is the string \<^verbatim>\<open>data.type\<close>, with
  \<^verbatim>\<open>data.payload\<close> and the name of the connection, and changes nothing else. A connection
  delivers a decoded message to \<^verbatim>\<open>emitEvent\<close> when its type is not \<^verbatim>\<open>pong\<close> and its
  \<^verbatim>\<open>onMessage\<close> handler is absent or returns.
\<close>

theorem subscribers_fire_in_order:
  "listeners (subscribe eventType cb st) = listeners st @ [(eventType, cb)] \<and>
   emitEvent source data st =
     st\<lparr>calls := calls st @
        map (\<lambda>(ty, cb). (cb_id cb, SubscriberArgs (payload_of data) source))
          (matching data (listeners st))\<rparr> \<and>
   (JSON_parse f = Inr data \<longrightarrow> get_prop data ''type'' \<noteq> Inr (Some (JStr ''pong'')) \<longrightarrow>
    get_prop data ''type'' \<noteq> Inl TypeError \<longrightarrow>
    returns (onMessage hs) (MessageArg data) \<longrightarrow>
      ws_onmessage name hs f st =
        (Normal, emitEvent name data (snd (invoke_opt (onMessage hs) (MessageArg data) st))))"
proof (intro conjI impI)
  show "listeners (subscribe eventType cb st) = listeners st @ [(eventType, cb)]"
    by (simp add: subscribe_def)
  show "emitEvent source data st =
     st\<lparr>calls := calls st @
        map (\<lambda>(ty, cb). (cb_id cb, SubscriberArgs (payload_of data) source))
          (matching data (listeners st))\<rparr>"
    unfolding emitEvent_def by (rule dispatch_calls)
next
  assume "JSON_parse f = Inr data" "get_prop data ''type'' \<noteq> Inr (Some (JStr ''pong''))"
    "get_prop data ''type'' \<noteq> Inl TypeError"
    "returns (onMessage hs) (MessageArg data)"
  then show "ws_onmessage name hs f st =
        (Normal, emitEvent name data (snd (invoke_opt (onMessage hs) (MessageArg data) st)))"
    by (cases data)
       (auto simp add: ws_onmessage_def ws_onmessage_try_def returns_def invoke_opt_def invoke_def
         split: option.splits sum.splits)
qed

theorem subscribers_fire_in_order_witness:
  "JSON_parse (Text fraud_alert) = Inr fraud_alert \<and>
   get_prop fraud_alert ''type'' \<noteq> Inr (Some (JStr ''pong'')) \<and>
   get_prop fraud_alert ''type'' \<noteq> Inl TypeError \<and>
   returns (onMessage listening) (MessageArg fraud_alert) \<and>
   map fst (listeners subscribed) = [''fraud_alert'', ''other'', ''fraud_alert''] \<and>
   calls (snd (ws_onmessage ''feed'' listening (Text fraud_alert) subscribed)) =
     [(9, MessageArg fraud_alert),
      (1, SubscriberArgs (Some (JObj [(''title'', JStr ''x'')])) ''feed''),
      (3, SubscriberArgs (Some (JObj [(''title'', JStr ''x'')])) ''feed'')]"
proof -
  let ?s1 = "snd (invoke_opt (onMessage listening) (MessageArg fraud_alert) subscribed)"
  have h1: "JSON_parse (Text fraud_alert) = Inr fraud_alert" by simp
  have h2: "get_prop fraud_alert ''type'' \<noteq> Inr (Some (JStr ''pong''))"
    by (simp add: fraud_alert_def)
  have h3: "get_prop fraud_alert ''type'' \<noteq> Inl TypeError"
    by (simp add: fraud_alert_def)
  have h4: "returns (onMessage listening) (MessageArg fraud_alert)"
    by (simp add: returns_def listening_def scenario_defs)
  have l: "listeners subscribed = [(''fraud_alert'', quiet 1), (''other'', quiet 2),
                                   (''fraud_alert'', quiet 3)]"
    using subscribers_fire_in_order[of "''fraud_alert''" "quiet 3"
            "subscribe ''other'' (quiet 2) (subscribe ''fraud_alert'' (quiet 1) page)"]
    by (simp add: subscribed_def subscribe_def page_def TIMBWebSocket_def)
  have l1: "listeners ?s1 = listeners subscribed" "calls ?s1 = [(9, MessageArg fraud_alert)]"
    by (simp_all add: invoke_opt_def invoke_def listening_def scenario_defs subscribe_def)
  from subscribers_fire_in_order[of "''x''" "quiet 0" ?s1 "''feed''" fraud_alert]
  have e: "emitEvent ''feed'' fraud_alert ?s1 =
     ?s1\<lparr>calls := calls ?s1 @
        map (\<lambda>(ty, cb). (cb_id cb, SubscriberArgs (payload_of fraud_alert) ''feed''))
          (matching fraud_alert (listeners ?s1))\<rparr>"
    by blast
  from subscribers_fire_in_order[of "''x''" "quiet 0" subscribed "''feed''" fraud_alert
      "Text fraud_alert" listening "''feed''"] h1 h2 h3 h4
  have "ws_onmessage ''feed'' listening (Text fraud_alert) subscribed =
        (Normal, emitEvent ''feed'' fraud_alert ?s1)"
    by blast
  then have "calls (snd (ws_onmessage ''feed'' listening (Text fraud_alert) subscribed)) =
     calls ?s1 @
        map (\<lambda>(ty, cb). (cb_id cb, SubscriberArgs (payload_of fraud_alert) ''feed''))
          (matching fraud_alert (listeners ?s1))"
    by (simp add: e)
  then have c: "calls (snd (ws_onmessage ''feed'' listening (Text fraud_alert) subscribed)) =
     [(9, MessageArg fraud_alert),
      (1, SubscriberArgs (Some (JObj [(''title'', JStr ''x'')])) ''feed''),
      (3, SubscriberArgs (Some (JObj [(''title'', JStr ''x'')])) ''feed'')]"
    unfolding l1 l
    by (simp add: matching_def payload_of_def fraud_alert_def quiet_def)
  from h1 h2 h3 h4 l c show ?thesis by simp
qed

text \<open>
  C10. When the \<^verbatim>\<open>onMessage\<close> handler of the connection raises on a decoded message whose
  type is not \<^verbatim>\<open>pong\<close>, \<^verbatim>\<open>ws.onmessage\<close> returns normally: the exception is caught by the
  handler of parse failures and logged with its text. The only call made is the one of the
  handler; no subscriber is called, whatever the subscriptions are.
\<close>

theorem raising_onMessage_stops_broadcast:
  "JSON_parse f = Inr data \<Longrightarrow> get_prop data ''type'' = Inr ty \<Longrightarrow>
   ty \<noteq> Some (JStr ''pong'') \<Longrightarrow> onMessage hs = Some cb \<Longrightarrow>
   cb_throws cb (MessageArg data) \<Longrightarrow>
   ws_onmessage name hs f st =
     (Normal, st\<lparr>calls := calls st @ [(cb_id cb, MessageArg data)],
                 console := console st @
                   [Error [S (''Error parsing WebSocket message from '' @ name @ '':''),
                           E (CallbackThrew (cb_id cb))]]\<rparr>)"
  by (simp add: ws_onmessage_def ws_onmessage_try_def console_error_def invoke_opt_def
      invoke_def)

theorem raising_onMessage_stops_broadcast_witness:
  "JSON_parse (Text fraud_alert) = Inr fraud_alert \<and>
   get_prop fraud_alert ''type'' = Inr (Some (JStr ''fraud_alert'')) \<and>
   Some (JStr ''fraud_alert'') \<noteq> Some (JStr ''pong'') \<and>
   onMessage raising_onMessage = Some raising \<and>
   cb_throws raising (MessageArg fraud_alert) \<and>
   map fst (matching fraud_alert (listeners subscribed)) = [''fraud_alert'', ''fraud_alert''] \<and>
   calls (snd (ws_onmessage ''feed'' raising_onMessage (Text fraud_alert) subscribed))
     = [(7, MessageArg fraud_alert)]"
proof -
  have h1: "JSON_parse (Text fraud_alert) = Inr fraud_alert" by simp
  have h2: "get_prop fraud_alert ''type'' = Inr (Some (JStr ''fraud_alert''))"
    by (simp add: fraud_alert_def)
  have h3: "Some (JStr ''fraud_alert'') \<noteq> Some (JStr ''pong'')" by simp
  have h4: "onMessage raising_onMessage = Some raising"
    by (simp add: raising_onMessage_def no_handlers_def)
  have h5: "cb_throws raising (MessageArg fraud_alert)"
    by (simp add: raising_def)
  have m: "map fst (matching fraud_alert (listeners subscribed))
             = [''fraud_alert'', ''fraud_alert'']"
    by (simp add: matching_def fraud_alert_def subscribed_def subscribe_def page_def
        TIMBWebSocket_def)
  have c0: "calls subscribed = []"
    by (simp add: subscribed_def subscribe_def page_def TIMBWebSocket_def)
  from raising_onMessage_stops_broadcast[OF h1 h2 h3 h4 h5, of "''feed''" subscribed]
  have c: "calls (snd (ws_onmessage ''feed'' raising_onMessage (Text fraud_alert) subscribed))
             = [(7, MessageArg fraud_alert)]"
    by (simp add: c0 raising_def)
  from h1 h2 h3 h4 h5 m c show ?thesis by blast
qed

end
